theory Spec2Isabelle
  imports Complex_Main "HOL-Library.AList"
begin

section \<open>Conventions of the embedding\<close>

text \<open>
  The benchmark client (\<^verbatim>\<open>benchmark_serving.py\<close>) is embedded function by function.
  Python exceptions that leave a function are values of \<open>py_error\<close> on the left of a
  sum. Python floats (times in seconds and milliseconds, latencies, weights) are
  modelled as real numbers; Python integers as \<open>int\<close>. Everything the program obtains
  from outside (the tokenizer, the clocks, the two random generators, the server's
  answers) is a parameter or a field of an environment record, so that each function
  is a pure function of its inputs.
\<close>

datatype py_error =
    ValueError
  | IndexError
  | KeyError
  | ZeroDivisionError
  | AttributeError
  | AssertionError

text \<open>Python's true division of numbers: a zero divisor raises.\<close>

definition py_truediv :: "real \<Rightarrow> real \<Rightarrow> py_error + real" where
  "py_truediv a b = (if b = 0 then Inl ZeroDivisionError else Inr (a / b))"

section \<open>Descriptive statistics: \<^verbatim>\<open>get_stats_for_set\<close>\<close>

text \<open>
  The reductions of numpy that \<^verbatim>\<open>get_stats_for_set\<close> calls, on real numbers: the
  arithmetic mean, the median (the mean of the two middle elements for an even
  length), the population standard deviation, the extremes, and the percentile with
  numpy's default linear interpolation between the two closest ranks. The source
  calls them on non-empty lists only.
\<close>

definition np_mean :: "real list \<Rightarrow> real" where
  "np_mean xs = sum_list xs / real (length xs)"

definition np_median :: "real list \<Rightarrow> real" where
  "np_median xs =
     (let s = sort xs; n = length xs
      in if odd n then s ! (n div 2) else (s ! (n div 2 - 1) + s ! (n div 2)) / 2)"

definition np_std :: "real list \<Rightarrow> real" where
  "np_std xs = sqrt (np_mean (map (\<lambda>x. (x - np_mean xs) ^ 2) xs))"

definition np_min :: "real list \<Rightarrow> real" where
  "np_min xs = Min (set xs)"

definition np_max :: "real list \<Rightarrow> real" where
  "np_max xs = Max (set xs)"

definition np_percentile :: "real list \<Rightarrow> real \<Rightarrow> real" where
  "np_percentile xs q =
     (let s = sort xs;
          pos = q / 100 * real (length xs - 1);
          lo = nat \<lfloor>pos\<rfloor>;
          hi = nat \<lceil>pos\<rceil>
      in s ! lo + (s ! hi - s ! lo) * (pos - real lo))"

text \<open>
  \<^verbatim>\<open>get_stats_for_set(name, description, points)\<close>: each statistic is
  \<^verbatim>\<open>np.f(points) if points else 0\<close>; the result is the dictionary of the seven
  statistics under the keys \<^verbatim>\<open>avg_<name>\<close>, \<^verbatim>\<open>median_<name>\<close>, ... in this order.
  The description is only printed.
\<close>

definition get_stats_for_set :: "string \<Rightarrow> string \<Rightarrow> real list \<Rightarrow> (string \<times> real) list" where
  "get_stats_for_set name description points =
     (let avg = (if points \<noteq> [] then np_mean points else 0);
          median = (if points \<noteq> [] then np_median points else 0);
          sd = (if points \<noteq> [] then np_std points else 0);
          mn = (if points \<noteq> [] then np_min points else 0);
          mx = (if points \<noteq> [] then np_max points else 0);
          p90 = (if points \<noteq> [] then np_percentile points 90 else 0);
          p99 = (if points \<noteq> [] then np_percentile points 99 else 0)
      in [(''avg_'' @ name, avg),
          (''median_'' @ name, median),
          (''sd_'' @ name, sd),
          (''min_'' @ name, mn),
          (''max_'' @ name, mx),
          (''p90_'' @ name, p90),
          (''p99_'' @ name, p99)])"

section \<open>The request counter: \<^verbatim>\<open>AsyncRequestCounter\<close>\<close>

text \<open>
  The singleton instance is a record; the class attribute \<^verbatim>\<open>_instance\<close> is a
  \<open>counter option\<close> that the functions below take and return. The attribute
  \<^verbatim>\<open>_end_time\<close> exists only once \<^verbatim>\<open>increment\<close> has assigned it, so it is optional.
  The lock serialises the updates; the model applies them one after another.
\<close>

record counter =
  count :: int
  start_time :: real
  target_requests :: "int option"
  end_time :: "real option"

text \<open>\<^verbatim>\<open>__new__(cls, target_requests=None)\<close>: creates the instance on the first call only.\<close>

definition AsyncRequestCounter :: "counter option \<Rightarrow> int option \<Rightarrow> real \<Rightarrow> counter" where
  "AsyncRequestCounter inst target now =
     (case inst of
        None \<Rightarrow> \<lparr>count = 0, start_time = now, target_requests = target, end_time = None\<rparr>
      | Some c \<Rightarrow> c)"

definition increment :: "counter \<Rightarrow> real \<Rightarrow> counter" where
  "increment c now =
     (let c' = c\<lparr>count := count c + 1\<rparr>
      in if Some (count c') = target_requests c' then c'\<lparr>end_time := Some now\<rparr> else c')"

text \<open>
  \<^verbatim>\<open>get_qps\<close> reads \<^verbatim>\<open>self._end_time\<close>: an AttributeError when it was never assigned.
\<close>

definition get_qps :: "counter \<Rightarrow> py_error + real" where
  "get_qps c =
     (case end_time c of
        None \<Rightarrow> Inl AttributeError
      | Some e \<Rightarrow> py_truediv (real_of_int (count c)) (e - start_time c))"

text \<open>
  \<^verbatim>\<open>on_request_start\<close>, the hook of \<^verbatim>\<open>trace_config\<close>: it runs once for every request
  that a session carrying \<^verbatim>\<open>trace_config\<close> starts.
\<close>

definition on_request_start :: "counter option \<Rightarrow> real \<Rightarrow> counter option" where
  "on_request_start inst now = Some (increment (AsyncRequestCounter inst None now) now)"

section \<open>The transport and its failures\<close>

text \<open>
  The keys of the dictionary of \<^verbatim>\<open>init_errors_map\<close>; a transport exception is
  represented by the key of the first \<^verbatim>\<open>except\<close> clause that catches it.
\<close>

datatype err_cat =
    ClientConnectorError
  | TimeoutError
  | ContentTypeError
  | ClientOSError
  | ServerDisconnectedError
  | unknown_error

type_synonym errors_map = "err_cat \<Rightarrow> nat"

definition init_errors_map :: errors_map where
  "init_errors_map = (\<lambda>k. 0)"

text \<open>
  A decoded JSON answer: whether it has the key \<^verbatim>\<open>"error"\<close>, and the text at the path
  that the backend's decoder reads (\<open>None\<close> when the path is absent, where the lookup
  raises).
\<close>

record response =
  has_error :: bool
  body :: "string option"

datatype post_result = Raised err_cat | Answer response

text \<open>
  A streamed chunk after \<^verbatim>\<open>strip()\<close>: empty, the sentinel \<^verbatim>\<open>[DONE]\<close>, or a well-formed
  payload carrying a text fragment.
\<close>

datatype chunk = Blank | Done | Fragment string

text \<open>
  What the outside world does during one call of \<^verbatim>\<open>send_request\<close> or
  \<^verbatim>\<open>send_stream_request\<close>: the readings of \<^verbatim>\<open>time.time()\<close> at entry and after the
  exchange, the result of the k-th \<^verbatim>\<open>session.post\<close> and the clock when it starts, the
  reading of \<^verbatim>\<open>time.perf_counter()\<close> before the stream, the chunks of the stream
  with the reading of \<^verbatim>\<open>perf_counter\<close> at each, and the exception that ends the stream
  early, if any.
\<close>

record exchange =
  t_start :: real
  t_end :: real
  posts :: "nat \<Rightarrow> post_result"
  post_time :: "nat \<Rightarrow> real"
  perf_start :: real
  chunks :: "(chunk \<times> real) list"
  stream_exn :: "err_cat option"

text \<open>
  The result tuple of the two send functions: \<^verbatim>\<open>(None, None, None, errors)\<close> or
  \<^verbatim>\<open>(request_latency, ttft_ms, itl_ms, None)\<close> with
  \<^verbatim>\<open>request_latency = (prompt_len, output_len, latency_ms)\<close>.
\<close>

datatype outcome =
    Failure errors_map
  | Success "int \<times> int \<times> real" "real option" "real list option"

section \<open>\<^verbatim>\<open>send_request\<close>\<close>

text \<open>
  The \<^verbatim>\<open>if/elif\<close> chain that builds the payload: an unknown backend raises ValueError,
  and \<^verbatim>\<open>tgi\<close> asserts that beam search is off. The payload itself is built once,
  before the loop, and never changed.
\<close>

definition send_request_payload :: "string \<Rightarrow> bool \<Rightarrow> py_error option" where
  "send_request_payload backend use_beam_search =
     (if backend = ''vllm'' then None
      else if backend = ''tgi'' then (if use_beam_search then Some AssertionError else None)
      else if backend = ''naive_transformers'' then None
      else if backend = ''tensorrt_llm_triton'' then None
      else if backend = ''sax'' then None
      else if backend = ''jetstream'' then None
      else Some ValueError)"

text \<open>
  The loop \<^verbatim>\<open>while True\<close> of \<^verbatim>\<open>send_request\<close>, from its k-th pass on. Each pass posts
  the request (the hook counts it), returns the error category when the post raises,
  leaves the loop when the answer has no key \<^verbatim>\<open>"error"\<close>, and posts again otherwise.
  The loop has no bound, so not returning is the value \<open>None\<close>.
\<close>

partial_function (option) send_loop ::
  "exchange \<Rightarrow> counter option \<Rightarrow> nat \<Rightarrow> (counter option \<times> (err_cat + response)) option" where
  "send_loop x inst k =
     (case posts x k of
        Raised e \<Rightarrow> Some (on_request_start inst (post_time x k), Inl e)
      | Answer r \<Rightarrow>
          if \<not> has_error r then Some (on_request_start inst (post_time x k), Inr r)
          else send_loop x (on_request_start inst (post_time x k)) (Suc k))"

text \<open>\<^verbatim>\<open>str.find\<close>: the lowest index of the substring, or -1.\<close>

fun py_find :: "string \<Rightarrow> string \<Rightarrow> int" where
  "py_find [] sub = (if sub = [] then 0 else - 1)"
| "py_find (c # cs) sub =
     (if take (length sub) (c # cs) = sub then 0
      else (let r = py_find cs sub in if r < 0 then - 1 else r + 1))"

definition NEW_TEXT_KEY :: string where
  "NEW_TEXT_KEY = CHR 0x0A # ''Output:'' @ [CHR 0x0A]"

text \<open>
  The output length after a completed exchange. \<^verbatim>\<open>naive_transformers\<close> cuts the
  prediction after \<^verbatim>\<open>NEW_TEXT_KEY\<close> and subtracts the prompt length from the token
  count; the other backends count the tokens of the generated text; a backend
  outside the chain keeps the requested length.
\<close>

definition response_output_len ::
  "string \<Rightarrow> (string \<Rightarrow> nat list) \<Rightarrow> int \<Rightarrow> int \<Rightarrow> response \<Rightarrow> py_error + int" where
  "response_output_len backend tokenizer prompt_len output_len r =
     (if backend = ''naive_transformers'' then
        (case body r of
           None \<Rightarrow> Inl KeyError
         | Some complete_pred \<Rightarrow>
             (let new_text_start_index =
                    py_find complete_pred NEW_TEXT_KEY + int (length NEW_TEXT_KEY);
                  pred = drop (nat new_text_start_index) complete_pred
              in Inr (int (length (tokenizer pred)) - prompt_len)))
      else if backend = ''tensorrt_llm_triton'' \<or> backend = ''sax'' \<or> backend = ''tgi''
              \<or> backend = ''vllm'' \<or> backend = ''jetstream'' then
        (case body r of
           None \<Rightarrow> Inl KeyError
         | Some generated \<Rightarrow> Inr (int (length (tokenizer generated))))
      else Inr output_len)"

text \<open>
  \<^verbatim>\<open>send_request\<close>. The latency is \<^verbatim>\<open>request_end_time_ms - request_start_time_ms\<close>;
  the observation of the normalized time per output token divides it by the output
  length, outside every \<^verbatim>\<open>try\<close>. The Prometheus histograms that receive the
  observations are sinks outside the model; only the division is kept.
\<close>

definition send_request ::
  "string \<Rightarrow> bool \<Rightarrow> (string \<Rightarrow> nat list) \<Rightarrow> int \<Rightarrow> int \<Rightarrow> exchange \<Rightarrow> counter option
     \<Rightarrow> (counter option \<times> (py_error + outcome)) option" where
  "send_request backend use_beam_search tokenizer prompt_len output_len x inst =
     (case send_request_payload backend use_beam_search of
        Some err \<Rightarrow> Some (inst, Inl err)
      | None \<Rightarrow>
          (case send_loop x inst 0 of
             None \<Rightarrow> None
           | Some (inst', Inl e) \<Rightarrow>
               Some (inst', Inr (Failure (init_errors_map(e := init_errors_map e + 1))))
           | Some (inst', Inr r) \<Rightarrow>
               (let latency_ms = 1000 * t_end x - 1000 * t_start x
                in case response_output_len backend tokenizer prompt_len output_len r of
                     Inl err \<Rightarrow> Some (inst', Inl err)
                   | Inr n \<Rightarrow>
                       (case py_truediv latency_ms (real_of_int n) of
                          Inl err \<Rightarrow> Some (inst', Inl err)
                        | Inr normalized \<Rightarrow>
                            Some (inst', Inr (Success (prompt_len, n, latency_ms) None None))))))"

section \<open>\<^verbatim>\<open>send_stream_request\<close>\<close>

text \<open>
  The state of the chunk loop: \<^verbatim>\<open>ttft_ms\<close>, \<^verbatim>\<open>itl_ms\<close>, \<^verbatim>\<open>most_recent_timestamp\<close>
  and \<^verbatim>\<open>output\<close>. An empty chunk is skipped before the clock is read. The first
  timed chunk sets \<^verbatim>\<open>ttft_ms\<close> (tested as \<^verbatim>\<open>ttft_ms == 0.0\<close>), every later one appends
  to \<^verbatim>\<open>itl_ms\<close>. \<^verbatim>\<open>vllm\<close> skips the sentinel; \<^verbatim>\<open>jetstream\<close> parses every chunk as JSON,
  which raises on the sentinel and is caught as an unknown error.
\<close>

fun stream_chunks ::
  "string \<Rightarrow> real \<Rightarrow> (chunk \<times> real) list \<Rightarrow> real \<times> real list \<times> real \<times> string
     \<Rightarrow> err_cat + (real \<times> real list \<times> real \<times> string)" where
  "stream_chunks backend start_time_ms [] st = Inr st"
| "stream_chunks backend start_time_ms ((Blank, t) # cs) st =
     stream_chunks backend start_time_ms cs st"
| "stream_chunks backend start_time_ms ((c, t) # cs) (ttft_ms, itl_ms, most_recent, output) =
     (let timestamp_ms = 1000 * t;
          ttft_ms' = (if ttft_ms = 0 then timestamp_ms - start_time_ms else ttft_ms);
          itl_ms' = (if ttft_ms = 0 then itl_ms else itl_ms @ [timestamp_ms - most_recent])
      in case c of
           Fragment s \<Rightarrow>
             stream_chunks backend start_time_ms cs (ttft_ms', itl_ms', timestamp_ms, output @ s)
         | _ \<Rightarrow>
             if backend = ''vllm'' then
               stream_chunks backend start_time_ms cs (ttft_ms', itl_ms', timestamp_ms, output)
             else Inl unknown_error)"

definition send_stream_request ::
  "string \<Rightarrow> (string \<Rightarrow> nat list) \<Rightarrow> int \<Rightarrow> exchange \<Rightarrow> py_error + outcome" where
  "send_stream_request backend tokenizer prompt_len x =
     (if backend \<noteq> ''vllm'' \<and> backend \<noteq> ''jetstream'' then Inl ValueError
      else
        (let start_time_ms = 1000 * perf_start x
         in case stream_chunks backend start_time_ms (chunks x) (0, [], start_time_ms, [])
            of
              Inl e \<Rightarrow> Inr (Failure (init_errors_map(e := init_errors_map e + 1)))
            | Inr (ttft_ms, itl_ms, most_recent, output) \<Rightarrow>
                (case stream_exn x of
                   Some e \<Rightarrow> Inr (Failure (init_errors_map(e := init_errors_map e + 1)))
                 | None \<Rightarrow>
                     (let latency_ms = 1000 * t_end x - 1000 * t_start x;
                          n = int (length (tokenizer output))
                      in case py_truediv latency_ms (real_of_int n) of
                           Inl err \<Rightarrow> Inl err
                         | Inr normalized \<Rightarrow>
                             Inr (Success (prompt_len, n, latency_ms)
                                    (Some ttft_ms) (Some itl_ms))))))"

section \<open>The request pool: \<^verbatim>\<open>get_filtered_dataset\<close>\<close>

definition MIN_SEQ_LEN :: int where
  "MIN_SEQ_LEN = 4"

text \<open>
  The dataset is the decoded JSON file: one list of turn texts per conversation.
  With \<^verbatim>\<open>use_dummy_text\<close> the pool is the single dummy request. Otherwise
  conversations with fewer than two turns are dropped, the first two turns are
  tokenized, and the entries that are too short or too long are pruned. The function
  returns the list it has built, whatever its length.
\<close>

definition get_filtered_dataset ::
  "string list list \<Rightarrow> int \<Rightarrow> int \<Rightarrow> (string \<Rightarrow> nat list) \<Rightarrow> (nat list \<Rightarrow> string) \<Rightarrow> bool
     \<Rightarrow> (string \<times> int \<times> int) list" where
  "get_filtered_dataset dataset max_input_len max_output_len tokenizer detokenize use_dummy_text =
     (if use_dummy_text then
        [(detokenize (replicate (nat max_input_len) 0), max_input_len, max_output_len)]
      else
        (let two_turns = filter (\<lambda>d. 2 \<le> length d) dataset;
             pairs = map (\<lambda>d. (d ! 0, d ! 1)) two_turns;
             tokenized_dataset =
               map (\<lambda>(prompt, completion).
                      (prompt, tokenizer prompt, int (length (tokenizer completion)))) pairs;
             kept =
               filter (\<lambda>(prompt, prompt_token_ids, output_len).
                         \<not> (int (length prompt_token_ids) < MIN_SEQ_LEN \<or> output_len < MIN_SEQ_LEN)
                         \<and> \<not> (int (length prompt_token_ids) > max_input_len
                                 \<or> output_len > max_output_len))
                      tokenized_dataset
         in map (\<lambda>(prompt, prompt_token_ids, output_len).
                   (prompt, int (length prompt_token_ids), output_len)) kept))"

section \<open>The request generator: \<^verbatim>\<open>generate_next_request\<close>\<close>

text \<open>
  \<^verbatim>\<open>random.choice(seq)\<close> with the generator's next integer: IndexError on an empty
  sequence, the element at a position below the length otherwise.
\<close>

definition random_choice :: "'a list \<Rightarrow> nat \<Rightarrow> py_error + 'a" where
  "random_choice xs draw =
     (if xs = [] then Inl IndexError else Inr (xs ! (draw mod length xs)))"

text \<open>The request rate: \<^verbatim>\<open>float("inf")\<close> or another float.\<close>

datatype rate = Infinite | Finite real

text \<open>
  The part of the generator's loop body after \<^verbatim>\<open>yield\<close>. With an infinite rate the
  loop continues at once (\<open>None\<close>: \<^verbatim>\<open>asyncio.sleep\<close> is not called). Otherwise the interval
  is \<^verbatim>\<open>np.random.exponential(1.0 / request_rate)\<close> and the generator sleeps for it
  (\<open>Some interval\<close>). The sampler is numpy's, a parameter here: it maps the scale to
  the sample that this call draws. The division raises for a zero rate, and numpy
  refuses a negative scale.
\<close>

definition generate_next_request_wait :: "rate \<Rightarrow> (real \<Rightarrow> real) \<Rightarrow> py_error + real option" where
  "generate_next_request_wait request_rate exponential =
     (case request_rate of
        Infinite \<Rightarrow> Inr None
      | Finite r \<Rightarrow>
          if r = 0 then Inl ZeroDivisionError
          else if 1 / r < 0 then Inl ValueError
          else Inr (Some (exponential (1 / r))))"

section \<open>Model selection: \<^verbatim>\<open>random.choices\<close>\<close>

text \<open>
  \<^verbatim>\<open>random.choices(population, weights)[0]\<close> of the standard library, with the uniform
  draw \<open>u\<close> of \<^verbatim>\<open>random()\<close>: the running sums of the weights, and a bisection of them
  for \<^verbatim>\<open>u * total\<close> between 0 and \<^verbatim>\<open>n - 1\<close>.
\<close>

fun accumulate :: "real \<Rightarrow> real list \<Rightarrow> real list" where
  "accumulate acc [] = []"
| "accumulate acc (w # ws) = (acc + w) # accumulate (acc + w) ws"

function bisect_right :: "real list \<Rightarrow> real \<Rightarrow> nat \<Rightarrow> nat \<Rightarrow> nat" where
  "bisect_right a x lo hi =
     (if lo < hi then
        (if x < a ! ((lo + hi) div 2) then bisect_right a x lo ((lo + hi) div 2)
         else bisect_right a x ((lo + hi) div 2 + 1) hi)
      else lo)"
  by pat_completeness auto
termination
  by (relation "measure (\<lambda>(a, x, lo, hi). hi - lo)") auto

declare bisect_right.simps [simp del]

definition random_choices :: "string list \<Rightarrow> real list \<Rightarrow> real \<Rightarrow> py_error + string" where
  "random_choices population weights u =
     (let n = length population;
          cum_weights = accumulate 0 weights
      in if length cum_weights \<noteq> n then Inl ValueError
         else if cum_weights = [] then Inl IndexError
         else if last cum_weights \<le> 0 then Inl ValueError
         else Inr (population ! bisect_right cum_weights (u * last cum_weights) 0 (n - 1)))"

section \<open>\<^verbatim>\<open>benchmark\<close>: configuration of the traffic split\<close>

text \<open>
  The first statements of \<^verbatim>\<open>benchmark\<close> after the pool is built: the default split,
  the two checks, and \<^verbatim>\<open>dict(zip(models, traffic_split))\<close> (a repeated model keeps its
  first position and its last weight).
\<close>

definition traffic_split_config ::
  "string list \<Rightarrow> real list option \<Rightarrow> py_error + (string \<times> real) list" where
  "traffic_split_config models traffic_split =
     (case (case traffic_split of
              None \<Rightarrow>
                if models = [] then Inl ZeroDivisionError
                else Inr (replicate (length models) (1 / real (length models)))
            | Some w \<Rightarrow> Inr w) of
        Inl err \<Rightarrow> Inl err
      | Inr w \<Rightarrow>
          if length models \<noteq> length w then Inl ValueError
          else if \<bar>sum_list w - 1\<bar> > 1 / 10 ^ 6 then Inl ValueError
          else Inr (fold (\<lambda>(k, v). AList.update k v) (zip models w) []))"

section \<open>\<^verbatim>\<open>benchmark\<close>: the emission loop\<close>

text \<open>
  The environment of one run: the dataset, the tokenizer, the draws of
  \<^verbatim>\<open>random.choice\<close>, \<^verbatim>\<open>random.choices\<close> and \<^verbatim>\<open>np.random.exponential\<close> by the index of the
  call, what happens to the k-th dispatched request, and the three readings of the
  clock in \<^verbatim>\<open>benchmark\<close>.
\<close>

record env =
  dataset :: "string list list"
  tokenize :: "string \<Rightarrow> nat list"
  detokenize :: "nat list \<Rightarrow> string"
  choice_draw :: "nat \<Rightarrow> nat"
  choices_draw :: "nat \<Rightarrow> real"
  exponential_draw :: "nat \<Rightarrow> real \<Rightarrow> real"
  exchange_of :: "nat \<Rightarrow> exchange"
  benchmark_start_time_sec :: real
  counter_created_time :: real
  benchmark_end_time_sec :: real

text \<open>What the loop does that the outside can see, in order.\<close>

datatype event =
    Dispatched "string \<times> int \<times> int" string
  | Slept real

text \<open>
  \<^verbatim>\<open>async for request in generate_next_request(...)\<close> with the loop body, from the
  state \<^verbatim>\<open>prompts_sent\<close> on. The generator draws a request first; the loop then tests
  the cap, selects the model and creates the task; resuming the generator runs its
  wait. The result is the trace and the exception that ended the loop, if any.
\<close>

function request_loop ::
  "env \<Rightarrow> (string \<times> int \<times> int) list \<Rightarrow> rate \<Rightarrow> int \<Rightarrow> string list \<Rightarrow> real list \<Rightarrow> nat
     \<Rightarrow> event list \<times> py_error option" where
  "request_loop e input_requests request_rate num_prompts model_names model_weights prompts_sent =
     (case random_choice input_requests (choice_draw e prompts_sent) of
        Inl err \<Rightarrow> ([], Some err)
      | Inr request \<Rightarrow>
          if int prompts_sent \<ge> num_prompts then ([], None)
          else
            (case random_choices model_names model_weights (choices_draw e prompts_sent) of
               Inl err \<Rightarrow> ([], Some err)
             | Inr chosen_model \<Rightarrow>
                 (case generate_next_request_wait request_rate (exponential_draw e prompts_sent) of
                    Inl err \<Rightarrow> ([Dispatched request chosen_model], Some err)
                  | Inr None \<Rightarrow>
                      (case request_loop e input_requests request_rate num_prompts
                              model_names model_weights (Suc prompts_sent) of
                         (evs, r) \<Rightarrow> (Dispatched request chosen_model # evs, r))
                  | Inr (Some interval) \<Rightarrow>
                      (case request_loop e input_requests request_rate num_prompts
                              model_names model_weights (Suc prompts_sent) of
                         (evs, r) \<Rightarrow>
                           (Dispatched request chosen_model # Slept interval # evs, r)))))"
  by pat_completeness auto
termination
  by (relation "measure (\<lambda>(e, p, r, n, ms, ws, k). nat (n - int k))") auto

declare request_loop.simps [simp del]

definition tasks_of :: "event list \<Rightarrow> ((string \<times> int \<times> int) \<times> string) list" where
  "tasks_of evs = concat (map (\<lambda>ev. case ev of Dispatched r m \<Rightarrow> [(r, m)] | Slept d \<Rightarrow> []) evs)"


section \<open>\<^verbatim>\<open>benchmark\<close>: dispatch and collection\<close>

text \<open>The command-line arguments that the modelled code reads.\<close>

record args =
  backend :: string
  stream_request :: bool
  use_beam_search :: bool
  num_prompts :: int
  request_rate :: rate
  use_dummy_text :: bool
  max_input_length :: int
  max_output_length :: int

text \<open>
  \<^verbatim>\<open>run_single_request\<close>. Only the session of \<^verbatim>\<open>send_request\<close> is created with
  \<^verbatim>\<open>trace_configs=[trace_config]\<close>; the session of \<^verbatim>\<open>send_stream_request\<close> is not, so
  a streamed request leaves the counter as it is.
\<close>

definition run_single_request ::
  "args \<Rightarrow> (string \<Rightarrow> nat list) \<Rightarrow> int \<Rightarrow> int \<Rightarrow> string \<Rightarrow> exchange \<Rightarrow> counter option
     \<Rightarrow> (counter option \<times> (py_error + string \<times> outcome)) option" where
  "run_single_request a tokenizer prompt_len output_len chosen_model x inst =
     (if stream_request a then
        (case send_stream_request (backend a) tokenizer prompt_len x of
           Inl err \<Rightarrow> Some (inst, Inl err)
         | Inr res \<Rightarrow> Some (inst, Inr (chosen_model, res)))
      else
        (case send_request (backend a) (use_beam_search a) tokenizer prompt_len output_len x inst of
           None \<Rightarrow> None
         | Some (inst', Inl err) \<Rightarrow> Some (inst', Inl err)
         | Some (inst', Inr res) \<Rightarrow> Some (inst', Inr (chosen_model, res))))"

text \<open>
  \<^verbatim>\<open>asyncio.gather(*tasks)\<close>: the results in the order of the tasks. The model runs
  the tasks one after another in that order; the k-th task meets the k-th exchange
  of the environment. A task that raises makes \<^verbatim>\<open>gather\<close> raise, and a task that
  never returns keeps \<^verbatim>\<open>gather\<close> waiting.
\<close>

fun gather ::
  "args \<Rightarrow> env \<Rightarrow> ((string \<times> int \<times> int) \<times> string) list \<Rightarrow> nat \<Rightarrow> counter option
     \<Rightarrow> (counter option \<times> (py_error + (string \<times> outcome) list)) option" where
  "gather a e [] k inst = Some (inst, Inr [])"
| "gather a e (((prompt, prompt_len, output_len), chosen_model) # ts) k inst =
     (case run_single_request a (tokenize e) prompt_len output_len chosen_model
             (exchange_of e k) inst of
        None \<Rightarrow> None
      | Some (inst', Inl err) \<Rightarrow> Some (inst', Inl err)
      | Some (inst', Inr res) \<Rightarrow>
          (case gather a e ts (Suc k) inst' of
             None \<Rightarrow> None
           | Some (inst'', Inl err) \<Rightarrow> Some (inst'', Inl err)
           | Some (inst'', Inr rs) \<Rightarrow> Some (inst'', Inr (res # rs))))"

text \<open>
  One entry of \<^verbatim>\<open>overall_results\<close> or \<^verbatim>\<open>per_model_results\<close>: the four series and the
  error counts.
\<close>

record bucket =
  latencies :: "(int \<times> int \<times> real) list"
  ttfts :: "real list"
  itls :: "real list"
  tpots :: "real list"
  errors :: errors_map

definition new_bucket :: bucket where
  "new_bucket = \<lparr>latencies = [], ttfts = [], itls = [], tpots = [], errors = init_errors_map\<rparr>"

definition add_errors :: "errors_map \<Rightarrow> bucket \<Rightarrow> bucket" where
  "add_errors errs b = b\<lparr>errors := (\<lambda>k. errors b k + errs k)\<rparr>"

text \<open>
  The branch of a completed request, applied to one bucket. The tests \<^verbatim>\<open>if ttft_ms\<close>
  and \<^verbatim>\<open>if itl_ms\<close> are Python truth tests: \<^verbatim>\<open>None\<close>, \<^verbatim>\<open>0.0\<close> and the empty list are false.
\<close>

definition add_success :: "int \<times> int \<times> real \<Rightarrow> real option \<Rightarrow> real list option \<Rightarrow> bucket \<Rightarrow> bucket" where
  "add_success latency ttft_ms itl_ms b =
     (case latency of (prompt_len, output_len, request_latency_ms) \<Rightarrow>
        (let b1 = b\<lparr>latencies := latencies b @ [latency]\<rparr>;
             b2 = (case ttft_ms of
                     None \<Rightarrow> b1
                   | Some t \<Rightarrow>
                       if t = 0 then b1
                       else b1\<lparr>ttfts := ttfts b1 @ [t],
                               tpots := tpots b1 @
                                 [if output_len > 1
                                  then (request_latency_ms - t) / real_of_int (output_len - 1)
                                  else 0]\<rparr>)
         in case itl_ms of
              None \<Rightarrow> b2
            | Some l \<Rightarrow> if l = [] then b2 else b2\<lparr>itls := itls b2 @ l\<rparr>))"

text \<open>
  The body of the loop \<^verbatim>\<open>for chosen_model, res in results\<close>: the same update goes to
  the overall bucket and to \<^verbatim>\<open>per_model_results[chosen_model]\<close>, whose lookup raises
  KeyError for a model without a bucket. (The test \<^verbatim>\<open>res is None\<close> never holds: both
  send functions return a tuple.)
\<close>

definition collect_result ::
  "bucket \<times> (string \<times> bucket) list \<Rightarrow> string \<times> outcome
     \<Rightarrow> py_error + bucket \<times> (string \<times> bucket) list" where
  "collect_result st item =
     (case st of (overall_results, per_model_results) \<Rightarrow>
      case item of (chosen_model, res) \<Rightarrow>
        (case map_of per_model_results chosen_model of
           None \<Rightarrow> Inl KeyError
         | Some b \<Rightarrow>
             (case res of
                Failure errs \<Rightarrow>
                  Inr (add_errors errs overall_results,
                       AList.update chosen_model (add_errors errs b) per_model_results)
              | Success latency ttft_ms itl_ms \<Rightarrow>
                  Inr (add_success latency ttft_ms itl_ms overall_results,
                       AList.update chosen_model (add_success latency ttft_ms itl_ms b)
                         per_model_results))))"

fun collect_results ::
  "bucket \<times> (string \<times> bucket) list \<Rightarrow> (string \<times> outcome) list
     \<Rightarrow> py_error + bucket \<times> (string \<times> bucket) list" where
  "collect_results st [] = Inr st"
| "collect_results st (item # items) =
     (case collect_result st item of
        Inl err \<Rightarrow> Inl err
      | Inr st' \<Rightarrow> collect_results st' items)"

section \<open>Reporting: \<^verbatim>\<open>print_and_save_result\<close>\<close>

text \<open>
  The numbers that one call reports: the printed requests per second, the scalar
  entries of \<^verbatim>\<open>benchmark_result\<close>, and the statistics tables merged into it, in the
  order of the dictionary display (their keys are pairwise distinct).
\<close>

record report =
  requests_per_sec :: real
  queries_per_second :: real
  num_prompts_attempted :: int
  num_prompts_succeeded :: int
  benchmark_time :: real
  throughput_rps :: real
  throughput :: real
  total_output_token :: int
  total_input_tokens :: int
  input_tokens_per_sec :: real
  total_tokens :: int
  tokens_per_sec :: real
  stats :: "(string \<times> real) list"

text \<open>A list comprehension of Python divisions: the first zero divisor raises.\<close>

fun truediv_all :: "(real \<times> real) list \<Rightarrow> py_error + real list" where
  "truediv_all [] = Inr []"
| "truediv_all ((a, b) # rest) =
     (case py_truediv a b of
        Inl err \<Rightarrow> Inl err
      | Inr q \<Rightarrow> (case truediv_all rest of Inl err \<Rightarrow> Inl err | Inr qs \<Rightarrow> Inr (q # qs)))"

text \<open>
  \<^verbatim>\<open>print_and_save_result\<close> up to the computation of \<^verbatim>\<open>benchmark_result\<close>. The two
  divisions of a Python number by the duration and the divisions of the list
  comprehensions raise on a zero divisor; the divisions of numpy sums do not raise,
  and they are reached with a non-zero duration only. The statistics of \<^verbatim>\<open>tpots\<close> are
  computed and printed but not merged into \<^verbatim>\<open>benchmark_result\<close>. Scraping the server
  metrics, the cost line and the JSON file are sinks outside the model.
\<close>

definition print_and_save_result ::
  "args \<Rightarrow> real \<Rightarrow> int \<Rightarrow> string \<Rightarrow> (int \<times> int \<times> real) list \<Rightarrow> real list \<Rightarrow> real list
     \<Rightarrow> real list \<Rightarrow> counter option \<Rightarrow> real \<Rightarrow> py_error + report" where
  "print_and_save_result a benchmark_duration_sec total_requests model request_latencies
       ttfts_in itls_in tpots_in inst now =
     (case py_truediv (real_of_int total_requests) benchmark_duration_sec of
        Inl err \<Rightarrow> Inl err
      | Inr rps \<Rightarrow>
     (case get_qps (AsyncRequestCounter inst None now) of
        Inl err \<Rightarrow> Inl err
      | Inr qps \<Rightarrow>
     (case py_truediv (real_of_int (num_prompts a)) benchmark_duration_sec of
        Inl err \<Rightarrow> Inl err
      | Inr t_rps \<Rightarrow>
     (let total_output_tokens = sum_list (map (\<lambda>(p, ol, l). ol) request_latencies);
          total_input = sum_list (map (\<lambda>(p, ol, l). p) request_latencies)
      in
     (case truediv_all (map (\<lambda>(p, ol, l). (l, real_of_int (p + ol))) request_latencies) of
        Inl err \<Rightarrow> Inl err
      | Inr per_token \<Rightarrow>
     (case truediv_all (map (\<lambda>(p, ol, l). (l, real_of_int ol)) request_latencies) of
        Inl err \<Rightarrow> Inl err
      | Inr normalized \<Rightarrow>
          Inr \<lparr>requests_per_sec = rps,
               queries_per_second = qps,
               num_prompts_attempted = total_requests,
               num_prompts_succeeded = int (length request_latencies),
               benchmark_time = benchmark_duration_sec,
               throughput_rps = t_rps,
               throughput = real_of_int total_output_tokens / benchmark_duration_sec,
               total_output_token = total_output_tokens,
               total_input_tokens = total_input,
               input_tokens_per_sec = real_of_int total_input / benchmark_duration_sec,
               total_tokens = total_input + total_output_tokens,
               tokens_per_sec =
                 real_of_int (total_input + total_output_tokens) / benchmark_duration_sec,
               stats =
                 get_stats_for_set ''per_token_latency_ms''
                   ''milliseconds/token (includes waiting time on server)'' per_token
                 @ (if stream_request a then
                      get_stats_for_set ''TTFT_ms'' ''Time to First Token (ms)'' ttfts_in
                      @ get_stats_for_set ''ITL_ms'' ''Inter-Token Latency (ms)'' itls_in
                    else [])
                 @ get_stats_for_set ''latency_ms''
                     ''milliseconds/request (includes waiting time on server)''
                     (map (\<lambda>(p, ol, l). l) request_latencies)
                 @ get_stats_for_set ''normalized_time_per_output_token_ms''
                     ''milliseconds/output_token (includes waiting time on server)'' normalized
                 @ get_stats_for_set ''input_len'' ''input length''
                     (map (\<lambda>(p, ol, l). real_of_int p) request_latencies)
                 @ get_stats_for_set ''output_len'' ''output length''
                     (map (\<lambda>(p, ol, l). real_of_int ol) request_latencies)\<rparr>))))))"

section \<open>\<^verbatim>\<open>benchmark\<close>\<close>

text \<open>
  The reports of the per-model buckets, in the order of the dictionary; the count
  passed as \<^verbatim>\<open>total_requests\<close> is \<^verbatim>\<open>len(data["latencies"])\<close>.
\<close>

fun report_models ::
  "args \<Rightarrow> real \<Rightarrow> (string \<times> bucket) list \<Rightarrow> counter option \<Rightarrow> real
     \<Rightarrow> py_error + (string \<times> report) list" where
  "report_models a duration [] inst now = Inr []"
| "report_models a duration ((model, data) # rest) inst now =
     (case print_and_save_result a duration (int (length (latencies data))) model
             (latencies data) (ttfts data) (itls data) (tpots data) inst now of
        Inl err \<Rightarrow> Inl err
      | Inr r \<Rightarrow>
          (case report_models a duration rest inst now of
             Inl err \<Rightarrow> Inl err
           | Inr rs \<Rightarrow> Inr ((model, r) # rs)))"

text \<open>
  The part of \<^verbatim>\<open>benchmark\<close> after \<^verbatim>\<open>gather\<close>: the buckets are created, the results
  collected, the duration read, and the overall bucket reported under the name
  \<^verbatim>\<open>weighted\<close> with \<^verbatim>\<open>prompts_sent\<close> as its total, before the per-model buckets.
\<close>

definition collect_and_report ::
  "args \<Rightarrow> env \<Rightarrow> string list \<Rightarrow> nat \<Rightarrow> (string \<times> outcome) list \<Rightarrow> counter option
     \<Rightarrow> py_error + (string \<times> report) list" where
  "collect_and_report a e model_names prompts_sent results inst =
     (case collect_results (new_bucket, map (\<lambda>m. (m, new_bucket)) model_names) results of
        Inl err \<Rightarrow> Inl err
      | Inr (overall_results, per_model_results) \<Rightarrow>
          (let benchmark_duration_sec = benchmark_end_time_sec e - benchmark_start_time_sec e
           in case print_and_save_result a benchmark_duration_sec (int prompts_sent)
                     ''weighted'' (latencies overall_results) (ttfts overall_results)
                     (itls overall_results) (tpots overall_results) inst
                     (benchmark_end_time_sec e) of
                Inl err \<Rightarrow> Inl err
              | Inr r \<Rightarrow>
                  (case report_models a benchmark_duration_sec per_model_results inst
                          (benchmark_end_time_sec e) of
                     Inl err \<Rightarrow> Inl err
                   | Inr rs \<Rightarrow> Inr ((''weighted'', r) # rs))))"

text \<open>
  \<^verbatim>\<open>benchmark\<close>, called once per process by \<^verbatim>\<open>main\<close>, so the counter does not exist
  yet when it is created with the target \<^verbatim>\<open>args.num_prompts\<close>. The result is the
  trace of the emission loop with either the exception that left \<^verbatim>\<open>benchmark\<close> or
  the reports by bucket name; \<open>None\<close> when a request never returns.
\<close>

definition benchmark ::
  "args \<Rightarrow> env \<Rightarrow> string list \<Rightarrow> real list option
     \<Rightarrow> (event list \<times> (py_error + (string \<times> report) list)) option" where
  "benchmark a e models traffic_split =
     (let input_requests =
            get_filtered_dataset (dataset e) (max_input_length a) (max_output_length a)
              (tokenize e) (detokenize e) (use_dummy_text a)
      in case traffic_split_config models traffic_split of
           Inl err \<Rightarrow> Some ([], Inl err)
         | Inr models_dict \<Rightarrow>
             (let model_names = map fst models_dict;
                  model_weights = map snd models_dict;
                  inst = Some (AsyncRequestCounter None (Some (num_prompts a))
                                 (counter_created_time e))
              in case request_loop e input_requests (request_rate a) (num_prompts a)
                        model_names model_weights 0 of
                   (evs, Some err) \<Rightarrow> Some (evs, Inl err)
                 | (evs, None) \<Rightarrow>
                     (case gather a e (tasks_of evs) 0 inst of
                        None \<Rightarrow> None
                      | Some (inst', Inl err) \<Rightarrow> Some (evs, Inl err)
                      | Some (inst', Inr results) \<Rightarrow>
                          Some (evs, collect_and_report a e model_names
                                       (length (tasks_of evs)) results inst'))))"

section \<open>Auxiliary definitions for the statements\<close>

text \<open>
  The counter after the hooks of the posts \<open>k, ..., k + n - 1\<close> of an exchange have
  run: \<open>started x inst 0 n\<close> is the counter once \<open>n\<close> posts have started.
\<close>

fun started :: "exchange \<Rightarrow> counter option \<Rightarrow> nat \<Rightarrow> nat \<Rightarrow> counter option" where
  "started x inst k 0 = inst"
| "started x inst k (Suc n) = started x (on_request_start inst (post_time x k)) (Suc k) n"

text \<open>
  A soft failure: the post returns a well-formed answer that has the key \<^verbatim>\<open>"error"\<close>.
\<close>

definition soft_failure :: "post_result \<Rightarrow> bool" where
  "soft_failure p = (case p of Raised e \<Rightarrow> False | Answer r \<Rightarrow> has_error r)"

text \<open>
  The number of requests of a trace that were dispatched to a model.
\<close>

definition emitted_to :: "event list \<Rightarrow> string \<Rightarrow> nat" where
  "emitted_to evs m = length (filter (\<lambda>(r, chosen_model). chosen_model = m) (tasks_of evs))"

section \<open>Concrete inputs\<close>

text \<open>
  Inputs for the concrete runs below. The sample tokenizer yields one token per
  character; the second one prepends a begin-of-sequence token, as many tokenizers
  do. The sample exchange answers every post with the text \<^verbatim>\<open>abc\<close> and streams
  nothing; its variants change the answers, the stream or the clock.
\<close>

definition sample_tokenizer :: "string \<Rightarrow> nat list" where
  "sample_tokenizer s = map of_char s"


definition sample_detokenize :: "nat list \<Rightarrow> string" where
  "sample_detokenize ids = map (\<lambda>i. CHR ''a'') ids"

definition sample_exchange :: exchange where
  "sample_exchange =
     \<lparr>t_start = 10, t_end = 11,
      posts = (\<lambda>k. Answer \<lparr>has_error = False, body = Some ''abc''\<rparr>),
      post_time = (\<lambda>k. 10),
      perf_start = 0, chunks = [], stream_exn = None\<rparr>"



definition empty_answer :: exchange where
  "empty_answer = sample_exchange\<lparr>posts := (\<lambda>k. Answer \<lparr>has_error = False, body = Some []\<rparr>)\<rparr>"

definition refused_connection :: exchange where
  "refused_connection =
     sample_exchange\<lparr>posts := (\<lambda>k. Raised ClientConnectorError),
                      stream_exn := Some ClientConnectorError\<rparr>"


definition streamed_answer :: exchange where
  "streamed_answer = sample_exchange\<lparr>t_end := 12, chunks := [(Fragment ''ab'', 1), (Done, 2)]\<rparr>"

text \<open>
  A run environment whose dataset holds one conversation that is too short to be
  kept, whose draws are all zero, whose exponential sampler returns its scale, and
  whose every exchange is a refused connection; and the arguments of a non-streaming
  run of one request over the dummy pool.
\<close>

definition sample_env :: env where
  "sample_env =
     \<lparr>dataset = [[''hi'', ''yo'']],
      tokenize = sample_tokenizer,
      detokenize = sample_detokenize,
      choice_draw = (\<lambda>k. 0),
      choices_draw = (\<lambda>k. 0),
      exponential_draw = (\<lambda>k scale. scale),
      exchange_of = (\<lambda>k. refused_connection),
      benchmark_start_time_sec = 8,
      counter_created_time = 9,
      benchmark_end_time_sec = 12\<rparr>"

definition sample_args :: args where
  "sample_args =
     \<lparr>backend = ''vllm'', stream_request = False, use_beam_search = False, num_prompts = 1,
      request_rate = Infinite, use_dummy_text = True, max_input_length = 4,
      max_output_length = 8\<rparr>"

section \<open>Verified properties\<close>

subsection \<open>Auxiliary lemmas\<close>

lemma started_Suc: "started x inst k (Suc n) = on_request_start (started x inst k n) (post_time x (k + n))"
  by (induction n arbitrary: inst k) simp_all

lemma send_loop_soft_prefix:
  "(\<And>j. j < n \<Longrightarrow> soft_failure (posts x (k + j))) \<Longrightarrow>
   send_loop x inst k = send_loop x (started x inst k n) (k + n)"
proof (induction n arbitrary: inst k)
  case 0
  then show ?case by simp
next
  case (Suc n)
  have s0: "soft_failure (posts x k)" using Suc.prems [of 0] by simp
  have rest: "\<And>j. j < n \<Longrightarrow> soft_failure (posts x (Suc k + j))"
    using Suc.prems by (metis Suc_less_eq add_Suc add_Suc_right)
  have "send_loop x inst k = send_loop x (on_request_start inst (post_time x k)) (Suc k)"
    using s0 by (subst send_loop.simps) (simp add: soft_failure_def split: post_result.splits)
  also have "\<dots> = send_loop x (started x (on_request_start inst (post_time x k)) (Suc k) n) (Suc k + n)"
    by (rule Suc.IH [OF rest])
  finally show ?case by simp
qed




lemma send_loop_after_soft:
  assumes "\<forall>j<n. soft_failure (posts x j)"
  shows "send_loop x inst 0 = send_loop x (started x inst 0 n) n"
  using send_loop_soft_prefix [of n x 0 inst] assms by simp

lemma send_loop_clean:
  assumes "\<forall>j<n. soft_failure (posts x j)" and "posts x n = Answer r" and "\<not> has_error r"
  shows "send_loop x inst 0 = Some (started x inst 0 (Suc n), Inr r)"
proof -
  have "send_loop x (started x inst 0 n) n =
          Some (on_request_start (started x inst 0 n) (post_time x n), Inr r)"
    using assms(2,3) by (subst send_loop.simps) simp
  then show ?thesis
    using send_loop_after_soft [OF assms(1), of inst] by (simp only: started_Suc) simp
qed






lemma request_loop_empty_pool:
  "request_loop e [] rt n names ws k = ([], Some IndexError)"
  by (subst request_loop.simps) (simp add: random_choice_def)



lemma tasks_of_simps:
  "tasks_of [] = []"
  "tasks_of (Dispatched r m # evs) = (r, m) # tasks_of evs"
  "tasks_of (Slept d # evs) = tasks_of evs"
  by (simp_all add: tasks_of_def)





lemma dummy_pool:
  "get_filtered_dataset (dataset sample_env) 4 8 sample_tokenizer sample_detokenize True
     = [(''aaaa'', 4, 8)]"
  by (simp add: get_filtered_dataset_def sample_detokenize_def numeral_eq_Suc)

lemma single_model_config: "traffic_split_config [''m''] None = Inr [(''m'', 1)]"
  by (simp add: traffic_split_config_def)

lemma one_request_loop:
  "request_loop e [(''aaaa'', 4, 8)] Infinite 1 [''m''] [1] 0 =
     ([Dispatched (''aaaa'', 4, 8) ''m''], None)"
  by (simp add: request_loop.simps random_choice_def random_choices_def bisect_right.simps
      generate_next_request_wait_def)

lemma print_and_save_result_rates:
  assumes "print_and_save_result a d n m lats t i p inst now = Inr r"
  shows "requests_per_sec r = real_of_int n / d"
    and "num_prompts_attempted r = n"
    and "throughput_rps r = real_of_int (num_prompts a) / d"
    and "throughput r = real_of_int (sum_list (map (\<lambda>(p, ol, l). ol) lats)) / d"
  using assms
  by (auto simp: print_and_save_result_def py_truediv_def Let_def split: sum.splits if_splits)

lemma gather_stream_keeps_counter:
  assumes "stream_request a" and "gather a e ts k inst = Some (inst', r)"
  shows "inst' = inst"
  using assms(2)
proof (induction ts arbitrary: k r)
  case Nil
  then show ?case by simp
next
  case (Cons t ts)
  obtain prompt pl ol m where t: "t = ((prompt, pl, ol), m)" by (cases t) auto
  from Cons.prems assms(1) show ?case
    unfolding t
    by (auto simp: run_single_request_def split: sum.splits option.splits prod.splits
        dest: Cons.IH)
qed

lemma report_needs_end_time:
  assumes "end_time c = None"
  shows "\<exists>err. print_and_save_result a d n m lats t i p (Some c) now = Inl err"
  using assms
  by (simp add: print_and_save_result_def get_qps_def AsyncRequestCounter_def split: sum.splits)

lemma streaming_never_reports:
  assumes "stream_request a" and "benchmark a e models ts = Some (evs, r)"
  shows "\<exists>err. r = Inl err"
proof (cases r)
  case (Inl err)
  then show ?thesis by simp
next
  case (Inr reports)
  let ?c = "AsyncRequestCounter None (Some (num_prompts a)) (counter_created_time e)"
  have e0: "end_time ?c = None" by (simp add: AsyncRequestCounter_def)
  from assms(2) Inr obtain names inst' results where
    g: "gather a e (tasks_of evs) 0 (Some ?c) = Some (inst', Inr results)" and
    c: "collect_and_report a e names (length (tasks_of evs)) results inst' = Inr reports"
    by (auto simp: benchmark_def Let_def split: sum.splits prod.splits option.splits)
  from gather_stream_keeps_counter [OF assms(1) g] have i: "inst' = Some ?c" .
  from c show ?thesis
    unfolding i collect_and_report_def
    using report_needs_end_time [OF e0]
    by (auto simp: Let_def split: sum.splits prod.splits) (metis Inl_Inr_False)
qed

subsection \<open>Soft failures in \<^verbatim>\<open>send_request\<close>\<close>




subsection \<open>Reporting after a streaming run\<close>

text \<open>
  C2 at a concrete streaming run: one model, one request over the dummy pool, the
  answer streamed in two chunks. The session of \<^verbatim>\<open>send_stream_request\<close> has no trace
  configuration, the counter is never incremented, and the first call of
  \<^verbatim>\<open>print_and_save_result\<close> (for the bucket \<^verbatim>\<open>weighted\<close>) raises AttributeError in
  \<^verbatim>\<open>get_qps\<close>: no bucket is reported.
\<close>

theorem streaming_report_raises:
  "benchmark (sample_args\<lparr>stream_request := True\<rparr>)
     (sample_env\<lparr>exchange_of := (\<lambda>k. streamed_answer)\<rparr>) [''m''] None =
   Some ([Dispatched (''aaaa'', 4, 8) ''m''], Inl AttributeError)"
  by (simp add: benchmark_def sample_args_def sample_env_def dummy_pool [unfolded sample_env_def, simplified]
      single_model_config one_request_loop tasks_of_simps run_single_request_def
      send_stream_request_def streamed_answer_def sample_exchange_def sample_tokenizer_def
      py_truediv_def collect_and_report_def collect_result_def add_success_def new_bucket_def
      print_and_save_result_def get_qps_def AsyncRequestCounter_def)

subsection \<open>An empty request pool\<close>

text \<open>
  C3, as the code has it. \<^verbatim>\<open>get_filtered_dataset\<close> returns the empty pool like any
  other. \<^verbatim>\<open>benchmark\<close> then ends with an exception and an empty trace, so no request
  is dispatched: the ValueError or ZeroDivisionError of the traffic split when that
  is invalid, and otherwise the IndexError that \<^verbatim>\<open>random.choice\<close> raises in the first
  step of the request generator.
\<close>

theorem empty_pool_fails_at_first_draw:
  "get_filtered_dataset (dataset e) (max_input_length a) (max_output_length a)
       (tokenize e) (detokenize e) (use_dummy_text a) = []
   \<longrightarrow> benchmark a e models ts =
         Some ([], Inl (case traffic_split_config models ts of
                          Inl err \<Rightarrow> err
                        | Inr models_dict \<Rightarrow> IndexError))"
  by (simp add: benchmark_def request_loop_empty_pool split: sum.splits)

text \<open>
  The theorem at a dataset whose only conversation is too short to be kept.
\<close>

theorem empty_pool_fails_at_first_draw_witness:
  "benchmark (sample_args\<lparr>use_dummy_text := False\<rparr>) sample_env [''m''] (Some [1]) =
     Some ([], Inl IndexError)"
proof -
  have p: "get_filtered_dataset (dataset sample_env)
       (max_input_length (sample_args\<lparr>use_dummy_text := False\<rparr>))
       (max_output_length (sample_args\<lparr>use_dummy_text := False\<rparr>))
       (tokenize sample_env) (detokenize sample_env)
       (use_dummy_text (sample_args\<lparr>use_dummy_text := False\<rparr>)) = []"
    by (simp add: get_filtered_dataset_def sample_env_def sample_args_def sample_tokenizer_def
        MIN_SEQ_LEN_def)
  have c: "traffic_split_config [''m''] (Some [1]) = Inr [(''m'', 1)]"
    by (simp add: traffic_split_config_def)
  show ?thesis
    using empty_pool_fails_at_first_draw [of sample_env "sample_args\<lparr>use_dummy_text := False\<rparr>"
        "[''m'']" "Some [1]"] p c
    by simp
qed

text \<open>
  C3 as stated fails: on that dataset the filter returns the empty list without any
  error, and the run fails in the request generator with IndexError.
\<close>

theorem empty_pool_returned_counterexample:
  "get_filtered_dataset [[''hi'', ''yo'']] 4 8 sample_tokenizer sample_detokenize False = []
   \<and> benchmark (sample_args\<lparr>use_dummy_text := False\<rparr>) sample_env [''m''] None =
       Some ([], Inl IndexError)"
  by (simp add: benchmark_def get_filtered_dataset_def sample_env_def sample_args_def
      sample_tokenizer_def MIN_SEQ_LEN_def traffic_split_config_def request_loop_empty_pool)

subsection \<open>Requests per second of a per-model bucket\<close>

text \<open>
  C4 at a concrete non-streaming run: one model, one request, whose connection is
  refused; the run lasts 4 seconds. One request was emitted into the bucket of the
  model, so its rate is 1/4 requests per second, which the overall bucket reports.
  The per-model call passes the number of successes as \<^verbatim>\<open>total_requests\<close>: the
  bucket of the model reports 0 requests per second and 0 prompts attempted.
\<close>

theorem per_model_rate_counts_successes:
  "\<exists>r1 r2. benchmark sample_args sample_env [''m''] None =
       Some ([Dispatched (''aaaa'', 4, 8) ''m''], Inr [(''weighted'', r1), (''m'', r2)])
     \<and> emitted_to [Dispatched (''aaaa'', 4, 8) ''m''] ''m'' = 1
     \<and> benchmark_end_time_sec sample_env - benchmark_start_time_sec sample_env = 4
     \<and> requests_per_sec r1 = 1 / 4
     \<and> requests_per_sec r2 = 0
     \<and> num_prompts_attempted r2 = 0
     \<and> throughput_rps r2 = 1 / 4"
  by (simp add: benchmark_def sample_args_def sample_env_def dummy_pool [unfolded sample_env_def, simplified]
      single_model_config one_request_loop tasks_of_simps run_single_request_def
      send_request_def send_request_payload_def send_loop.simps refused_connection_def
      sample_exchange_def on_request_start_def increment_def
      py_truediv_def collect_and_report_def collect_result_def add_errors_def new_bucket_def
      print_and_save_result_def get_qps_def AsyncRequestCounter_def emitted_to_def
      get_stats_for_set_def)

subsection \<open>Validation of the traffic split\<close>



subsection \<open>Time per output token of a streamed success\<close>




subsection \<open>Statistics of an empty series\<close>

text \<open>
  C7. For the empty series \<^verbatim>\<open>get_stats_for_set\<close> returns the summary in which the
  mean, the median, the standard deviation, the minimum, the maximum, p90 and p99
  are all 0, whatever the name and the description; the function has no failing
  branch on the empty list, since no numpy reduction is called there.
\<close>

theorem get_stats_for_set_empty:
  "get_stats_for_set name description [] =
     [(''avg_'' @ name, 0), (''median_'' @ name, 0), (''sd_'' @ name, 0),
      (''min_'' @ name, 0), (''max_'' @ name, 0), (''p90_'' @ name, 0),
      (''p99_'' @ name, 0)]"
  by (simp add: get_stats_for_set_def)

subsection \<open>Inter-arrival gaps\<close>



subsection \<open>A refused connection\<close>



subsection \<open>An answer of zero tokens\<close>

text \<open>
  C10, as the code has it. When the completed exchange's text tokenizes to zero
  tokens, \<^verbatim>\<open>send_request\<close> raises ZeroDivisionError for the backends
  \<^verbatim>\<open>tensorrt_llm_triton\<close>, \<^verbatim>\<open>sax\<close>, \<^verbatim>\<open>tgi\<close>, \<^verbatim>\<open>vllm\<close> and \<^verbatim>\<open>jetstream\<close>, and so does
  \<^verbatim>\<open>send_stream_request\<close> for its two backends. For \<^verbatim>\<open>naive_transformers\<close> the
  output length is the token count minus the prompt length: with zero tokens and a
  non-zero prompt length it is negative, the division succeeds, and an outcome is
  returned.
\<close>

theorem zero_tokens_division:
  "((be = ''tensorrt_llm_triton'' \<or> be = ''sax'' \<or> be = ''tgi'' \<or> be = ''vllm'' \<or> be = ''jetstream'')
      \<and> send_request_payload be bs = None \<and> (\<forall>j<n. soft_failure (posts x j))
      \<and> posts x n = Answer r \<and> \<not> has_error r \<and> body r = Some generated \<and> tok generated = []
    \<longrightarrow> send_request be bs tok pl ol x inst = Some (started x inst 0 (Suc n), Inl ZeroDivisionError))
   \<and> ((\<forall>j<n. soft_failure (posts x j))
      \<and> posts x n = Answer r \<and> \<not> has_error r \<and> body r = Some generated
      \<and> tok (drop (nat (py_find generated NEW_TEXT_KEY + int (length NEW_TEXT_KEY))) generated) = []
      \<and> pl \<noteq> 0
    \<longrightarrow> send_request ''naive_transformers'' bs tok pl ol x inst =
          Some (started x inst 0 (Suc n),
                Inr (Success (pl, - pl, 1000 * t_end x - 1000 * t_start x) None None)))
   \<and> ((be = ''vllm'' \<or> be = ''jetstream'')
      \<and> stream_chunks be (1000 * perf_start x) (chunks x) (0, [], 1000 * perf_start x, [])
          = Inr (ttft_ms, itl_ms, recent, output)
      \<and> stream_exn x = None \<and> tok output = []
    \<longrightarrow> send_stream_request be tok pl x = Inl ZeroDivisionError)"
proof (intro conjI impI)
  assume h: "(be = ''tensorrt_llm_triton'' \<or> be = ''sax'' \<or> be = ''tgi'' \<or> be = ''vllm'' \<or> be = ''jetstream'')
      \<and> send_request_payload be bs = None \<and> (\<forall>j<n. soft_failure (posts x j))
      \<and> posts x n = Answer r \<and> \<not> has_error r \<and> body r = Some generated \<and> tok generated = []"
  then have loop: "send_loop x inst 0 = Some (started x inst 0 (Suc n), Inr r)"
    by (intro send_loop_clean) simp_all
  from h have len: "response_output_len be tok pl ol r = Inr 0"
    by (auto simp: response_output_len_def)
  from h loop len show "send_request be bs tok pl ol x inst =
      Some (started x inst 0 (Suc n), Inl ZeroDivisionError)"
    by (simp add: send_request_def py_truediv_def)
next
  assume h: "(\<forall>j<n. soft_failure (posts x j))
      \<and> posts x n = Answer r \<and> \<not> has_error r \<and> body r = Some generated
      \<and> tok (drop (nat (py_find generated NEW_TEXT_KEY + int (length NEW_TEXT_KEY))) generated) = []
      \<and> pl \<noteq> 0"
  then have loop: "send_loop x inst 0 = Some (started x inst 0 (Suc n), Inr r)"
    by (intro send_loop_clean) simp_all
  from h have len: "response_output_len ''naive_transformers'' tok pl ol r = Inr (- pl)"
    by (simp add: response_output_len_def)
  have pay: "send_request_payload ''naive_transformers'' bs = None"
    by (simp add: send_request_payload_def)
  from h loop len pay show "send_request ''naive_transformers'' bs tok pl ol x inst =
          Some (started x inst 0 (Suc n),
                Inr (Success (pl, - pl, 1000 * t_end x - 1000 * t_start x) None None))"
    by (simp add: send_request_def py_truediv_def)
next
  assume h: "(be = ''vllm'' \<or> be = ''jetstream'')
      \<and> stream_chunks be (1000 * perf_start x) (chunks x) (0, [], 1000 * perf_start x, [])
          = Inr (ttft_ms, itl_ms, recent, output)
      \<and> stream_exn x = None \<and> tok output = []"
  then show "send_stream_request be tok pl x = Inl ZeroDivisionError"
    by (auto simp: send_stream_request_def py_truediv_def)
qed

text \<open>
  The theorem at the exchange that answers with the empty text.
\<close>

theorem zero_tokens_division_witness:
  "send_request ''vllm'' False sample_tokenizer 4 8 empty_answer None =
     Some (started empty_answer None 0 1, Inl ZeroDivisionError)
   \<and> send_request ''naive_transformers'' False sample_tokenizer 4 8 empty_answer None =
     Some (started empty_answer None 0 1, Inr (Success (4, - 4, 1000) None None))
   \<and> send_stream_request ''vllm'' sample_tokenizer 4 empty_answer = Inl ZeroDivisionError"
proof -
  have a: "(''vllm'' = ''tensorrt_llm_triton'' \<or> ''vllm'' = ''sax'' \<or> ''vllm'' = ''tgi''
        \<or> ''vllm'' = ''vllm'' \<or> ''vllm'' = ''jetstream'')
      \<and> send_request_payload ''vllm'' False = None \<and> (\<forall>j<0. soft_failure (posts empty_answer j))
      \<and> posts empty_answer 0 = Answer \<lparr>has_error = False, body = Some []\<rparr>
      \<and> \<not> has_error \<lparr>has_error = False, body = Some []\<rparr>
      \<and> body \<lparr>has_error = False, body = Some []\<rparr> = Some [] \<and> sample_tokenizer [] = []"
    by (simp add: send_request_payload_def empty_answer_def sample_exchange_def sample_tokenizer_def)
  have b: "(\<forall>j<0. soft_failure (posts empty_answer j))
      \<and> posts empty_answer 0 = Answer \<lparr>has_error = False, body = Some []\<rparr>
      \<and> \<not> has_error \<lparr>has_error = False, body = Some []\<rparr>
      \<and> body \<lparr>has_error = False, body = Some []\<rparr> = Some []
      \<and> sample_tokenizer (drop (nat (py_find [] NEW_TEXT_KEY + int (length NEW_TEXT_KEY))) []) = []
      \<and> (4::int) \<noteq> 0"
    by (simp add: empty_answer_def sample_exchange_def sample_tokenizer_def)
  have c: "(''vllm'' = ''vllm'' \<or> ''vllm'' = ''jetstream'')
      \<and> stream_chunks ''vllm'' (1000 * perf_start empty_answer) (chunks empty_answer)
            (0, [], 1000 * perf_start empty_answer, []) = Inr (0, [], 0, [])
      \<and> stream_exn empty_answer = None \<and> sample_tokenizer [] = []"
    by (simp add: empty_answer_def sample_exchange_def sample_tokenizer_def)
  have t: "1000 * t_end empty_answer - 1000 * t_start empty_answer = 1000"
    by (simp add: empty_answer_def sample_exchange_def)
  show ?thesis
    using zero_tokens_division [of "''vllm''" False 0 empty_answer
        "\<lparr>has_error = False, body = Some []\<rparr>" "[]" sample_tokenizer 4 8 None
        0 "[]" 0 "[]"] a b c t
    by simp
qed

text \<open>
  C10 as stated fails for \<^verbatim>\<open>naive_transformers\<close>: an answer of zero tokens to a
  prompt of 4 tokens returns an outcome with the output length -4.
\<close>

theorem naive_transformers_zero_tokens_counterexample:
  "send_request ''naive_transformers'' False sample_tokenizer 4 8 empty_answer None =
     Some (Some \<lparr>count = 1, start_time = 10, target_requests = None, end_time = None\<rparr>,
           Inr (Success (4, - 4, 1000) None None))"
  by (simp add: send_request_def send_request_payload_def send_loop.simps empty_answer_def
      sample_exchange_def on_request_start_def increment_def AsyncRequestCounter_def
      response_output_len_def sample_tokenizer_def py_truediv_def NEW_TEXT_KEY_def)

end
